theory Spec2Isabelle
  imports Main
begin

section \<open>Slack messenger: a shallow embedding of \<^verbatim>\<open>src/slack_bot.py\<close>\<close>

text \<open>
  The module defines one class, \<^verbatim>\<open>SlackMessenger\<close>, with a constructor, a logging
  set-up helper, a file validator and the operation \<^verbatim>\<open>send_dm\<close>. Everything the
  methods do besides returning a value is made explicit here:
  \<^item> the process environment, the file system and the remote Slack service are a record
    \<open>world\<close> of parameters the methods read;
  \<^item> the calls a method makes on the logger, on the Slack client and on file handles are
    returned as a list of \<open>event\<close>s, in program order;
  \<^item> a Python exception is a value of type \<open>exn\<close>, and a method ends in a
    \<open>completion\<close>: it returns a value or raises.
  Strings are byte strings; case conversion is the ASCII one. Paths are parsed as
  \<^verbatim>\<open>pathlib\<close> does on POSIX (CPython 3.8 to 3.12).
\<close>

subsection \<open>Strings\<close>

text \<open>\<^verbatim>\<open>str.startswith\<close>.\<close>

definition startswith :: "string \<Rightarrow> string \<Rightarrow> bool" where
  "startswith s pre = (take (length pre) s = pre)"

text \<open>\<^verbatim>\<open>str.lower\<close> and \<^verbatim>\<open>str.upper\<close> on ASCII letters.\<close>

definition ascii_uppercase :: string where
  "ascii_uppercase = ''ABCDEFGHIJKLMNOPQRSTUVWXYZ''"

definition ascii_lowercase :: string where
  "ascii_lowercase = ''abcdefghijklmnopqrstuvwxyz''"

definition lower_chr :: "char \<Rightarrow> char" where
  "lower_chr c = (case map_of (zip ascii_uppercase ascii_lowercase) c of Some d \<Rightarrow> d | None \<Rightarrow> c)"

definition upper_chr :: "char \<Rightarrow> char" where
  "upper_chr c = (case map_of (zip ascii_lowercase ascii_uppercase) c of Some d \<Rightarrow> d | None \<Rightarrow> c)"

definition lower :: "string \<Rightarrow> string" where
  "lower s = map lower_chr s"

definition upper :: "string \<Rightarrow> string" where
  "upper s = map upper_chr s"

text \<open>\<^verbatim>\<open>str.split(sep)\<close> for a one-character separator.\<close>

fun split_sep :: "char \<Rightarrow> string \<Rightarrow> string list" where
  "split_sep c [] = [[]]"
| "split_sep c (x # xs) =
     (if x = c then [] # split_sep c xs
      else (case split_sep c xs of [] \<Rightarrow> [[x]] | w # ws \<Rightarrow> (x # w) # ws))"

text \<open>\<^verbatim>\<open>sep.join(xs)\<close>.\<close>

fun join :: "string \<Rightarrow> string list \<Rightarrow> string" where
  "join sep [] = []"
| "join sep [x] = x"
| "join sep (x # y # ys) = x @ sep @ join sep (y # ys)"

text \<open>\<^verbatim>\<open>str.rfind(c)\<close>: the last index of \<open>c\<close>, \<open>None\<close> for Python's \<open>-1\<close>.\<close>

fun rfind :: "char \<Rightarrow> string \<Rightarrow> nat option" where
  "rfind c [] = None"
| "rfind c (x # xs) =
     (case rfind c xs of Some i \<Rightarrow> Some (Suc i) | None \<Rightarrow> if x = c then Some 0 else None)"

text \<open>\<^verbatim>\<open>str(n)\<close> for a natural number.\<close>

definition digit_chr :: "nat \<Rightarrow> char" where
  "digit_chr d = ''0123456789'' ! d"

fun str_nat :: "nat \<Rightarrow> string" where
  "str_nat n = (if n < 10 then [digit_chr n] else str_nat (n div 10) @ [digit_chr (n mod 10)])"

declare str_nat.simps [simp del]

subsection \<open>Paths\<close>

text \<open>
  A \<^verbatim>\<open>pathlib.PosixPath\<close>: its root (\<open>''''\<close>, \<open>''/''\<close> or \<open>''//''\<close>) and its components.
  \<open>parse_path\<close> is \<^verbatim>\<open>Path(s)\<close> for a string: \<^verbatim>\<open>posixpath.splitroot\<close>, then the split
  at \<open>/\<close> with the empty and the \<open>.\<close> components dropped.
\<close>

datatype path = PosixPath (root: string) (parts: "string list")

definition splitroot :: "string \<Rightarrow> string \<times> string" where
  "splitroot p =
     (if take 1 p \<noteq> ''/'' then ('''', p)
      else if take 1 (drop 1 p) \<noteq> ''/'' \<or> take 1 (drop 2 p) = ''/'' then (''/'', drop 1 p)
      else (take 2 p, drop 2 p))"

definition parse_path :: "string \<Rightarrow> path" where
  "parse_path s =
     (case splitroot s of (rt, rel) \<Rightarrow>
        PosixPath rt (filter (\<lambda>x. x \<noteq> [] \<and> x \<noteq> ''.'') (split_sep CHR ''/'' rel)))"

text \<open>\<^verbatim>\<open>str(p)\<close>, \<^verbatim>\<open>p.name\<close> and \<^verbatim>\<open>p.suffix\<close>.\<close>

definition str_path :: "path \<Rightarrow> string" where
  "str_path p =
     (if root p = [] \<and> parts p = [] then ''.'' else root p @ join ''/'' (parts p))"

definition name :: "path \<Rightarrow> string" where
  "name p = (if parts p = [] then [] else last (parts p))"

definition suffix :: "path \<Rightarrow> string" where
  "suffix p =
     (case rfind CHR ''.'' (name p) of
        None \<Rightarrow> []
      | Some i \<Rightarrow> if 0 < i \<and> Suc i < length (name p) then drop i (name p) else [])"

text \<open>
  The type \<^verbatim>\<open>Union[str, Path]\<close> of the \<^verbatim>\<open>file_path\<close> arguments, the constructor
  \<^verbatim>\<open>Path(x)\<close> on it, and its truth value: a string is falsy when empty, a path object
  is always truthy.
\<close>

datatype pathlike = Str string | PathObj path

fun Path :: "pathlike \<Rightarrow> path" where
  "Path (Str s) = parse_path s"
| "Path (PathObj p) = p"

fun truthy :: "pathlike \<Rightarrow> bool" where
  "truthy (Str s) = (s \<noteq> [])"
| "truthy (PathObj p) = True"

text \<open>\<^verbatim>\<open>p / seg\<close> for a relative segment.\<close>

definition joinpath :: "path \<Rightarrow> string \<Rightarrow> path" where
  "joinpath p seg = PosixPath (root p) (parts p @ parts (parse_path seg))"

subsection \<open>Exceptions, completions and the world outside\<close>

text \<open>
  The exception classes that occur; all of them derive from \<^verbatim>\<open>Exception\<close>, so the clause
  \<^verbatim>\<open>except Exception\<close> catches every one. \<open>str_exn\<close> is \<^verbatim>\<open>str(e)\<close>. The messages of
  the exceptions that the interpreter and the standard library raise are written without
  their quotation marks.
\<close>

datatype exn =
    SlackApiError string
  | ValueError string
  | AttributeError string
  | TypeError string
  | KeyError string
  | OSError string
  | UnboundLocalError string
  | RuntimeError string

fun str_exn :: "exn \<Rightarrow> string" where
  "str_exn (SlackApiError m) = m"
| "str_exn (ValueError m) = m"
| "str_exn (AttributeError m) = m"
| "str_exn (TypeError m) = m"
| "str_exn (KeyError m) = m"
| "str_exn (OSError m) = m"
| "str_exn (UnboundLocalError m) = m"
| "str_exn (RuntimeError m) = m"

datatype 'a completion = Return 'a | Raise exn

text \<open>
  What the methods read from outside the class:
  \<^item> \<open>environ\<close>: the process environment, as \<^verbatim>\<open>os.getenv\<close> sees it;
  \<^item> \<open>stat\<close>: the file system, as \<^verbatim>\<open>os.stat\<close> answers for a path: \<open>Stat n\<close> when the path
    exists, with its \<^verbatim>\<open>st_size\<close>; \<open>NoEntry\<close> when the call fails with \<^verbatim>\<open>ENOENT\<close>, \<^verbatim>\<open>ENOTDIR\<close>,
    \<^verbatim>\<open>EBADF\<close> or \<^verbatim>\<open>ELOOP\<close>, the errors for which \<^verbatim>\<open>Path.exists()\<close> answers \<open>False\<close>;
    \<open>StatError m\<close> when it fails with any other \<^verbatim>\<open>OSError\<close> (a name too long, a directory
    that may not be searched), which \<^verbatim>\<open>Path.exists()\<close> raises;
  \<^item> \<open>open_rb\<close>, \<open>mkdir\<close>, \<open>open_log\<close>: whether \<^verbatim>\<open>open('rb')\<close>, \<^verbatim>\<open>mkdir(parents=True,
    exist_ok=True)\<close> and the opening of the log file by \<^verbatim>\<open>RotatingFileHandler\<close> succeed
    (\<open>None\<close>) or raise \<^verbatim>\<open>OSError\<close> with a message;
  \<^item> \<open>conversations_open\<close>, \<open>chat_postMessage\<close>, \<open>files_upload\<close>: the three methods of the
    Slack \<^verbatim>\<open>WebClient\<close> that are called, each returning or raising. \<open>conversations_open\<close>
    returns the \<^verbatim>\<open>response['channel']['id']\<close> of its response; a response without one is
    a raised \<^verbatim>\<open>KeyError\<close>.
  The world does not change during one call of a method.
\<close>

datatype stat_result = Stat nat | NoEntry | StatError string

record world =
  environ :: "string \<rightharpoonup> string"
  stat :: "path \<Rightarrow> stat_result"
  open_rb :: "path \<rightharpoonup> string"
  mkdir :: "path \<rightharpoonup> string"
  open_log :: "path \<rightharpoonup> string"
  conversations_open :: "string list \<Rightarrow> string completion"
  chat_postMessage :: "string \<Rightarrow> string \<Rightarrow> bool \<Rightarrow> unit completion"
  files_upload :: "string \<Rightarrow> path \<Rightarrow> string \<Rightarrow> unit completion"

text \<open>
  What a method does to the outside, in program order: a call of \<^verbatim>\<open>self.logger.info\<close> or
  \<^verbatim>\<open>self.logger.error\<close>, a call of one of the three client methods with its arguments
  (recorded whether it returns or raises), the opening of a file handle and its
  \<^verbatim>\<open>close()\<close>. The handle on a file is named by the file's path.
\<close>

datatype level = INFO | ERROR

datatype event =
    Log level string
  | ConversationsOpen "string list"
  | ChatPostMessage string string bool
  | FilesUpload string path string
  | FileOpen path
  | FileClose path

subsection \<open>The class\<close>

record config =
  max_retries :: nat
  timeout :: nat
  max_file_size :: nat
  allowed_file_types :: "string list"

record web_client =
  client_token :: string

record logger =
  log_file :: path
  log_level :: nat

record slack_messenger =
  token :: string
  client :: web_client
  config :: config
  logger :: logger

subsubsection \<open>\<^verbatim>\<open>_setup_logging\<close>\<close>

text \<open>\<^verbatim>\<open>os.getenv(key, default)\<close>.\<close>

definition getenv :: "world \<Rightarrow> string \<Rightarrow> string \<Rightarrow> string" where
  "getenv w key dflt = (case environ w key of None \<Rightarrow> dflt | Some v \<Rightarrow> v)"

text \<open>
  \<^verbatim>\<open>getattr(logging, name)\<close> on the names that \<^verbatim>\<open>str.upper\<close> can produce: the attributes of
  the standard \<^verbatim>\<open>logging\<close> module whose name has no lower-case letter. Any other name
  raises \<^verbatim>\<open>AttributeError\<close>.
\<close>

datatype pyval = PyInt nat | PyStr string | PyDict

definition logging_attrs :: "(string \<times> pyval) list" where
  "logging_attrs =
     [(''CRITICAL'', PyInt 50), (''FATAL'', PyInt 50), (''ERROR'', PyInt 40),
      (''WARNING'', PyInt 30), (''WARN'', PyInt 30), (''INFO'', PyInt 20),
      (''DEBUG'', PyInt 10), (''NOTSET'', PyInt 0),
      (''BASIC_FORMAT'', PyStr ''%(levelname)s:%(name)s:%(message)s''),
      (''_STYLES'', PyDict)]"

definition logging_getattr :: "string \<Rightarrow> pyval completion" where
  "logging_getattr nm =
     (case map_of logging_attrs nm of
        None \<Rightarrow> Raise (AttributeError (''module logging has no attribute '' @ nm))
      | Some v \<Rightarrow> Return v)"

text \<open>
  \<^verbatim>\<open>Logger.setLevel(v)\<close>: an integer is a level; a string must be a registered level name,
  which the format string \<^verbatim>\<open>BASIC_FORMAT\<close> is not; anything else is a type error.
\<close>

fun setLevel :: "pyval \<Rightarrow> nat completion" where
  "setLevel (PyInt n) = Return n"
| "setLevel (PyStr s) = Raise (ValueError (''Unknown level: '' @ s))"
| "setLevel PyDict = Raise (TypeError ''Level not an integer or a valid string'')"

definition setup_logging :: "world \<Rightarrow> logger completion" where
  "setup_logging w =
     (let log_path = getenv w ''SLACK_LOG_PATH'' ''logs'';
          log_level = getenv w ''SLACK_LOG_LEVEL'' ''INFO''
      in case mkdir w (parse_path log_path) of
           Some m \<Rightarrow> Raise (OSError m)
         | None \<Rightarrow>
             (let log_file = joinpath (parse_path log_path) ''slack_messenger.log''
              in case open_log w log_file of
                   Some m \<Rightarrow> Raise (OSError m)
                 | None \<Rightarrow>
                     (case logging_getattr (upper log_level) of
                        Raise e \<Rightarrow> Raise e
                      | Return v \<Rightarrow>
                          (case setLevel v of
                             Raise e \<Rightarrow> Raise e
                           | Return n \<Rightarrow> Return \<lparr>log_file = log_file, log_level = n\<rparr>))))"

subsubsection \<open>\<^verbatim>\<open>__init__\<close>\<close>

text \<open>
  \<^verbatim>\<open>a or b\<close> on optional strings: \<open>a\<close> when it is truthy (present and not empty),
  otherwise \<open>b\<close>; and \<^verbatim>\<open>not a\<close>. In \<open>init\<close>, the token that has passed \<^verbatim>\<open>not self.token\<close> is a
  string, so the \<open>None\<close> branch of the case on it is never taken.
\<close>

definition py_or :: "string option \<Rightarrow> string option \<Rightarrow> string option" where
  "py_or a b = (case a of None \<Rightarrow> b | Some s \<Rightarrow> if s \<noteq> [] then a else b)"

definition py_not :: "string option \<Rightarrow> bool" where
  "py_not a = (case a of None \<Rightarrow> True | Some s \<Rightarrow> s = [])"

definition missing_token :: string where
  "missing_token = ''Slack bot token not provided and SLACK_BOT_TOKEN not found in environment''"

definition default_config :: config where
  "default_config =
     \<lparr>max_retries = 3, timeout = 30, max_file_size = 10 * 1024 * 1024,
      allowed_file_types =
        [''.pdf'', ''.doc'', ''.docx'', ''.xls'', ''.xlsx'', ''.jpg'', ''.png'', ''.gif'', ''.txt'']\<rparr>"

definition init :: "string option \<Rightarrow> world \<Rightarrow> slack_messenger completion" where
  "init tok w =
     (let self_token = py_or tok (environ w ''SLACK_BOT_TOKEN'')
      in if py_not self_token then Raise (ValueError missing_token)
         else (case self_token of
                 None \<Rightarrow> Raise (ValueError missing_token)
               | Some t \<Rightarrow>
                   (case setup_logging w of
                      Raise e \<Rightarrow> Raise e
                    | Return lg \<Rightarrow>
                        Return \<lparr>token = t, client = \<lparr>client_token = t\<rparr>,
                                config = default_config, logger = lg\<rparr>)))"

subsubsection \<open>\<^verbatim>\<open>_validate_file\<close>\<close>

text \<open>
  The method has no \<^verbatim>\<open>try\<close>: when \<^verbatim>\<open>file_path.exists()\<close> raises, the method raises, having
  logged nothing. After \<^verbatim>\<open>exists()\<close> has answered \<open>True\<close>, \<^verbatim>\<open>file_path.stat()\<close> gives the size.
\<close>

definition validate_file ::
  "slack_messenger \<Rightarrow> world \<Rightarrow> pathlike \<Rightarrow> bool completion \<times> event list" where
  "validate_file self w file_path =
     (let file_path = Path file_path
      in case stat w file_path of
           StatError m \<Rightarrow> (Raise (OSError m), [])
         | NoEntry \<Rightarrow> (Return False, [Log ERROR (''File not found: '' @ str_path file_path)])
         | Stat st_size \<Rightarrow>
             if st_size > max_file_size (config self)
             then (Return False, [Log ERROR (''File exceeds maximum size of ''
                     @ str_nat (max_file_size (config self) div (1024 * 1024)) @ ''MB'')])
             else if lower (suffix file_path) \<notin> set (allowed_file_types (config self))
             then (Return False,
                   [Log ERROR (''File type '' @ suffix file_path @ '' not allowed'')])
             else (Return True, []))"

subsubsection \<open>\<^verbatim>\<open>send_dm\<close>\<close>

text \<open>
  The inner \<^verbatim>\<open>try\<close> block: open the channel, post the message, upload the file when
  \<open>files\<close> holds a handle, log the success. The first call that raises ends the block.
\<close>

definition send_message ::
  "world \<Rightarrow> string \<Rightarrow> string \<Rightarrow> bool \<Rightarrow> path option \<Rightarrow> bool completion \<times> event list" where
  "send_message w user_id message formatting files =
     (case conversations_open w [user_id] of
        Raise e \<Rightarrow> (Raise e, [ConversationsOpen [user_id]])
      | Return channel_id \<Rightarrow>
          (case chat_postMessage w channel_id message formatting of
             Raise e \<Rightarrow>
               (Raise e, [ConversationsOpen [user_id],
                          ChatPostMessage channel_id message formatting])
           | Return _ \<Rightarrow>
               (case files of
                  None \<Rightarrow>
                    (Return True,
                     [ConversationsOpen [user_id],
                      ChatPostMessage channel_id message formatting,
                      Log INFO (''Successfully sent message to '' @ user_id)])
                | Some file_path \<Rightarrow>
                    (case files_upload w channel_id file_path (name file_path) of
                       Raise e \<Rightarrow>
                         (Raise e,
                          [ConversationsOpen [user_id],
                           ChatPostMessage channel_id message formatting,
                           FilesUpload channel_id file_path (name file_path)])
                     | Return _ \<Rightarrow>
                         (Return True,
                          [ConversationsOpen [user_id],
                           ChatPostMessage channel_id message formatting,
                           FilesUpload channel_id file_path (name file_path),
                           Log INFO (''Successfully sent message to '' @ user_id)])))))"

text \<open>The clause \<^verbatim>\<open>except SlackApiError as e\<close> of the inner block.\<close>

fun except_SlackApiError :: "bool completion \<times> event list \<Rightarrow> bool completion \<times> event list" where
  "except_SlackApiError (Raise (SlackApiError m), evs) =
     (Return False, evs @ [Log ERROR (''Failed to send message: '' @ m)])"
| "except_SlackApiError (r, evs) = (r, evs)"

text \<open>
  The local variable \<^verbatim>\<open>files\<close> is bound by the assignments in lines 162 and 167 only.
  The body of the outer \<^verbatim>\<open>try\<close> returns how it completed, the binding of \<open>files\<close> at that
  point, and its events.
\<close>

datatype 'a local_var = Unbound | Bound 'a

definition send_dm_try ::
  "slack_messenger \<Rightarrow> world \<Rightarrow> string \<Rightarrow> string \<Rightarrow> bool \<Rightarrow> pathlike option
     \<Rightarrow> bool completion \<times> path option local_var \<times> event list" where
  "send_dm_try self w user_id message formatting file_path =
     (if \<not> startswith user_id ''U''
      then (Return False, Unbound, [Log ERROR (''Invalid user ID format: '' @ user_id)])
      else
        (case (case file_path of None \<Rightarrow> None | Some fp \<Rightarrow> if truthy fp then Some fp else None) of
           None \<Rightarrow>
             (case except_SlackApiError (send_message w user_id message formatting None) of
                (r, evs) \<Rightarrow> (r, Bound None, evs))
         | Some fp \<Rightarrow>
             (let file_path = Path fp
              in case validate_file self w (PathObj file_path) of
                   (Raise e, evs) \<Rightarrow> (Raise e, Bound None, evs)
                 | (Return ok, evs) \<Rightarrow>
                     if \<not> ok then (Return False, Bound None, evs)
                     else
                       (case open_rb w file_path of
                          Some m \<Rightarrow> (Raise (OSError m), Bound None, evs)
                        | None \<Rightarrow>
                            (case except_SlackApiError
                                    (send_message w user_id message formatting (Some file_path)) of
                               (r, evs') \<Rightarrow>
                                 (r, Bound (Some file_path), evs @ [FileOpen file_path] @ evs'))))))"

text \<open>
  The clause \<^verbatim>\<open>except Exception as e\<close> of the outer block, and the \<^verbatim>\<open>finally\<close> clause, which
  runs on every way out of the block: it reads \<open>files\<close>, which raises
  \<^verbatim>\<open>UnboundLocalError\<close> when the variable was never assigned (and the exception replaces the
  pending return), and closes the handle when there is one.
\<close>

fun except_Exception :: "bool completion \<times> event list \<Rightarrow> bool completion \<times> event list" where
  "except_Exception (Raise e, evs) =
     (Return False, evs @ [Log ERROR (''Unexpected error: '' @ str_exn e)])"
| "except_Exception (Return b, evs) = (Return b, evs)"

definition unbound_files :: string where
  "unbound_files = ''cannot access local variable files where it is not associated with a value''"

fun finally_clause :: "path option local_var \<Rightarrow> bool completion \<times> event list \<Rightarrow> bool completion \<times> event list" where
  "finally_clause Unbound (r, evs) = (Raise (UnboundLocalError unbound_files), evs)"
| "finally_clause (Bound None) (r, evs) = (r, evs)"
| "finally_clause (Bound (Some h)) (r, evs) = (r, evs @ [FileClose h])"

definition send_dm ::
  "slack_messenger \<Rightarrow> world \<Rightarrow> string \<Rightarrow> string \<Rightarrow> bool \<Rightarrow> pathlike option
     \<Rightarrow> bool completion \<times> event list" where
  "send_dm self w user_id message formatting file_path =
     (case send_dm_try self w user_id message formatting file_path of
        (r, files, evs) \<Rightarrow> finally_clause files (except_Exception (r, evs)))"

text \<open>Projections of a list of events: the calls on the Slack client, and the handles left open.\<close>

fun is_remote_call :: "event \<Rightarrow> bool" where
  "is_remote_call (ConversationsOpen us) = True"
| "is_remote_call (ChatPostMessage c t m) = True"
| "is_remote_call (FilesUpload c p t) = True"
| "is_remote_call e = False"

definition remote_calls :: "event list \<Rightarrow> event list" where
  "remote_calls evs = filter is_remote_call evs"

fun track_handle :: "path list \<Rightarrow> event \<Rightarrow> path list" where
  "track_handle hs (FileOpen p) = p # hs"
| "track_handle hs (FileClose p) = remove1 p hs"
| "track_handle hs e = hs"

definition open_handles :: "event list \<Rightarrow> path list" where
  "open_handles evs = foldl track_handle [] evs"

fun is_handle_event :: "event \<Rightarrow> bool" where
  "is_handle_event (FileOpen p) = True"
| "is_handle_event (FileClose p) = True"
| "is_handle_event e = False"

text \<open>
  A credential source (the constructor argument, or the environment variable) holds a
  credential when it is present and not the empty string.
\<close>

definition available :: "string option \<Rightarrow> bool" where
  "available c = (case c of None \<Rightarrow> False | Some s \<Rightarrow> s \<noteq> [])"


subsection \<open>Concrete worlds\<close>

text \<open>
  A file system with the given files: the current directory exists, a path with a
  component of more than 255 bytes cannot be stat'ed (\<^verbatim>\<open>ENAMETOOLONG\<close>), and nothing else
  exists. \<open>long_name\<close> is \<^verbatim>\<open>'a' * 300 + '.pdf'\<close>.
\<close>

definition file_system :: "(path \<times> nat) list \<Rightarrow> path \<Rightarrow> stat_result" where
  "file_system files p =
     (if list_ex (\<lambda>c. 255 < length c) (parts p) then StatError ''[Errno 36] File name too long''
      else if p = PosixPath [] [] then Stat 4096
      else (case map_of files p of Some n \<Rightarrow> Stat n | None \<Rightarrow> NoEntry))"


text \<open>
  A world in which everything works: the token is in the environment, the 2MB file
  \<^verbatim>\<open>report.pdf\<close> exists and can be read, the log directory can be made, and the Slack
  service answers every call. The messenger \<open>bot\<close> is what the constructor builds there.
\<close>

definition slack_up :: world where
  "slack_up =
     \<lparr>environ = [''SLACK_BOT_TOKEN'' \<mapsto> ''xoxb-env''],
      stat = file_system [(parse_path ''report.pdf'', 2 * 1024 * 1024)],
      open_rb = Map.empty, mkdir = Map.empty, open_log = Map.empty,
      conversations_open = (\<lambda>users. Return ''D024BE91L''),
      chat_postMessage = (\<lambda>channel text mrkdwn. Return ()),
      files_upload = (\<lambda>channels file title. Return ())\<rparr>"

definition bot :: slack_messenger where
  "bot =
     \<lparr>token = ''xoxb-env'', client = \<lparr>client_token = ''xoxb-env''\<rparr>, config = default_config,
      logger = \<lparr>log_file = PosixPath [] [''logs'', ''slack_messenger.log''], log_level = 20\<rparr>\<rparr>"

text \<open>The same world with a Slack service that refuses every \<^verbatim>\<open>chat_postMessage\<close>.\<close>

definition post_refused :: world where
  "post_refused =
     slack_up\<lparr>chat_postMessage := (\<lambda>channel text mrkdwn. Raise (SlackApiError ''channel_not_found''))\<rparr>"

text \<open>The same world with a connection that breaks during \<^verbatim>\<open>files_upload\<close>.\<close>

definition upload_broken :: world where
  "upload_broken =
     slack_up\<lparr>files_upload := (\<lambda>channels file title. Raise (RuntimeError ''connection reset''))\<rparr>"

text \<open>Worlds in which \<^verbatim>\<open>SLACK_LOG_LEVEL\<close> names a level that \<^verbatim>\<open>logging\<close> does not have.\<close>

definition trace_level :: world where
  "trace_level = slack_up\<lparr>environ := [''SLACK_LOG_LEVEL'' \<mapsto> ''TRACE'']\<rparr>"

definition verbose_level :: world where
  "verbose_level =
     slack_up\<lparr>environ := [''SLACK_BOT_TOKEN'' \<mapsto> ''xoxb-env'', ''SLACK_LOG_LEVEL'' \<mapsto> ''verbose'']\<rparr>"

text \<open>The same world with an empty environment.\<close>

definition no_token :: world where
  "no_token = slack_up\<lparr>environ := Map.empty\<rparr>"

text \<open>Worlds with one file of a given size.\<close>

definition one_file :: "string \<Rightarrow> nat \<Rightarrow> world" where
  "one_file nm sz = slack_up\<lparr>stat := file_system [(parse_path nm, sz)]\<rparr>"

section \<open>Properties\<close>

subsection \<open>Evaluation\<close>

lemmas string_defs = startswith_def lower_def upper_def lower_chr_def upper_chr_def
  ascii_uppercase_def ascii_lowercase_def

lemmas path_defs = parse_path_def splitroot_def name_def suffix_def str_path_def joinpath_def

lemmas init_defs = init_def py_or_def py_not_def setup_logging_def getenv_def logging_getattr_def
  logging_attrs_def missing_token_def



subsection \<open>The clauses of \<^verbatim>\<open>send_dm\<close>\<close>

lemma except_Exception_returns: "\<exists>b. fst (except_Exception x) = Return b"
  by (cases x rule: except_Exception.cases) auto

lemma finally_clause_Bound: "fst (finally_clause (Bound h) x) = fst x"
  by (cases h; cases x) simp_all

lemma send_dm_try_binds_files:
  "startswith user_id ''U'' \<Longrightarrow>
     \<exists>h. fst (snd (send_dm_try self w user_id message formatting file_path)) = Bound h"
  by (simp add: send_dm_try_def Let_def split: option.splits prod.splits completion.splits)

lemma validate_file_Path: "validate_file self w (PathObj (Path fp)) = validate_file self w fp"
  by (simp add: validate_file_def)

text \<open>
  Once the user ID has passed the prefix check, \<open>files\<close> is bound, the \<^verbatim>\<open>finally\<close> clause
  cannot raise, and every exception of the body has been turned into \<open>False\<close>: the call
  returns.
\<close>

lemma send_dm_returns:
  assumes "startswith user_id ''U''"
  shows "\<exists>b. fst (send_dm self w user_id message formatting file_path) = Return b"
proof -
  obtain r files evs
    where t: "send_dm_try self w user_id message formatting file_path = (r, files, evs)"
    by (cases "send_dm_try self w user_id message formatting file_path") auto
  from send_dm_try_binds_files [OF assms, of self w message formatting file_path] t
  obtain h where "files = Bound h" by auto
  with t show ?thesis
    by (simp add: send_dm_def finally_clause_Bound except_Exception_returns)
qed

subsection \<open>The user ID check\<close>

text \<open>
  Claim C1 says that \<^verbatim>\<open>send_dm\<close> never raises: every failure becomes a returned \<open>False\<close>.
  The code does not do that on the user ID \<^verbatim>\<open>X12345\<close>: line 159 returns \<open>False\<close> before
  line 162 has bound \<open>files\<close>, and the \<^verbatim>\<open>finally\<close> clause, reading \<open>files\<close>, raises
  \<^verbatim>\<open>UnboundLocalError\<close> to the caller, in every world and for every messenger.
\<close>

theorem send_dm_raises_on_invalid_user_id:
  "fst (send_dm self w ''X12345'' ''Hello!'' False None) = Raise (UnboundLocalError unbound_files)"
  by (simp add: send_dm_def send_dm_try_def startswith_def)

theorem send_dm_raises_on_invalid_user_id_witness:
  "fst (send_dm bot slack_up ''X12345'' ''Hello!'' False None) =
     Raise (UnboundLocalError unbound_files)"
  using send_dm_raises_on_invalid_user_id [of bot slack_up] by simp

text \<open>
  Claim C2 says that for a user ID that does not start with \<open>U\<close> the call returns \<open>False\<close>,
  logs an error and makes no remote call. The code logs the error and makes no remote
  call, and then raises \<^verbatim>\<open>UnboundLocalError\<close> instead of returning, whatever the other
  arguments are.
\<close>

theorem send_dm_rejects_user_id:
  "\<not> startswith user_id ''U'' \<Longrightarrow>
     send_dm self w user_id message formatting file_path =
       (Raise (UnboundLocalError unbound_files),
        [Log ERROR (''Invalid user ID format: '' @ user_id)])"
  by (simp add: send_dm_def send_dm_try_def)

theorem send_dm_rejects_user_id_witness:
  "\<not> startswith ''W0123456'' ''U'' \<and>
   send_dm bot slack_up ''W0123456'' ''Hi'' True (Some (Str ''report.pdf'')) =
     (Raise (UnboundLocalError unbound_files), [Log ERROR ''Invalid user ID format: W0123456''])"
  using send_dm_rejects_user_id
          [of "''W0123456''" bot slack_up "''Hi''" True "Some (Str ''report.pdf'')"]
  by (simp add: startswith_def)

subsection \<open>Paths and names\<close>

lemma split_sep_nonempty: "split_sep c s \<noteq> []"
  by (induction s) (auto split: list.splits)

lemma split_sep_plain: "c \<notin> set s \<Longrightarrow> split_sep c s = [s]"
  by (induction s) auto

lemma split_sep_last: "c \<notin> set b \<Longrightarrow> split_sep c (xs @ c # b) = split_sep c xs @ [b]"
proof (induction xs)
  case Nil
  then show ?case by (simp add: split_sep_plain)
next
  case (Cons x xs)
  then show ?case
    using split_sep_nonempty [of c xs] by (cases "split_sep c xs") auto
qed

lemma take1_no_slash: "CHR ''/'' \<notin> set b \<Longrightarrow> take 1 b \<noteq> ''/''"
  by (cases b) auto

text \<open>
  What \<^verbatim>\<open>splitroot\<close> leaves of a string that ends in \<open>/\<close> and a name is that name, or
  something that still ends in \<open>/\<close> and that name.
\<close>

lemma splitroot_rel:
  assumes "CHR ''/'' \<notin> set b"
  shows "snd (splitroot (d @ CHR ''/'' # b)) = b
       \<or> (\<exists>d'. snd (splitroot (d @ CHR ''/'' # b)) = d' @ CHR ''/'' # b)"
proof (cases d)
  case Nil
  then show ?thesis using take1_no_slash [OF assms] by (simp add: splitroot_def)
next
  case (Cons x d1)
  show ?thesis
  proof (cases d1)
    case Nil
    with Cons show ?thesis using take1_no_slash [OF assms] by (simp add: splitroot_def)
  next
    case (Cons y d2)
    with \<open>d = x # d1\<close> show ?thesis by (auto simp: splitroot_def)
  qed
qed

lemma parts_basename:
  assumes "CHR ''/'' \<notin> set b" and "b \<noteq> []" and "b \<noteq> ''.''"
  shows "parts (parse_path (d @ ''/'' @ b)) \<noteq> [] \<and> last (parts (parse_path (d @ ''/'' @ b))) = b"
proof -
  let ?rel = "snd (splitroot (d @ CHR ''/'' # b))"
  have p: "parts (parse_path (d @ ''/'' @ b)) =
             filter (\<lambda>x. x \<noteq> [] \<and> x \<noteq> ''.'') (split_sep CHR ''/'' ?rel)"
    by (simp add: parse_path_def split: prod.splits)
  from splitroot_rel [OF assms(1), of d]
  have "\<exists>ys. split_sep CHR ''/'' ?rel = ys @ [b]"
  proof
    assume "?rel = b"
    then show ?thesis using split_sep_plain [OF assms(1)] by simp
  next
    assume "\<exists>d'. ?rel = d' @ CHR ''/'' # b"
    then obtain d' where "?rel = d' @ CHR ''/'' # b" ..
    then show ?thesis using split_sep_last [OF assms(1), of d'] by simp
  qed
  then obtain ys where "split_sep CHR ''/'' ?rel = ys @ [b]" ..
  with p assms(2,3) show ?thesis by simp
qed

text \<open>
  \<^verbatim>\<open>Path(s).name\<close> is the base name: the part of \<open>s\<close> after its last \<open>/\<close>, and the whole of
  \<open>s\<close> when there is none.
\<close>

lemma name_basename:
  assumes "CHR ''/'' \<notin> set b" and "b \<noteq> []" and "b \<noteq> ''.''"
  shows "name (parse_path (d @ ''/'' @ b)) = b"
  using parts_basename [OF assms, of d] by (simp add: name_def)

lemma parse_path_plain:
  assumes "CHR ''/'' \<notin> set b" and "b \<noteq> []" and "b \<noteq> ''.''"
  shows "parse_path b = PosixPath [] [b]"
proof -
  from assms(1,2) have "take 1 b \<noteq> ''/''" by (cases b) auto
  then have "splitroot b = ([], b)" by (simp add: splitroot_def)
  with assms show ?thesis by (simp add: parse_path_def split_sep_plain)
qed

lemma name_plain:
  assumes "CHR ''/'' \<notin> set b" and "b \<noteq> []" and "b \<noteq> ''.''"
  shows "name (parse_path b) = b"
  by (simp add: parse_path_plain [OF assms] name_def)






subsection \<open>A file that does not exist\<close>






subsection \<open>File validation\<close>











subsection \<open>Events of the clauses\<close>

lemma validate_file_True:
  "fst (validate_file self w x) = Return True \<Longrightarrow> validate_file self w x = (Return True, [])"
  by (simp add: validate_file_def Let_def split: stat_result.splits if_splits)

lemma validate_file_events:
  "e \<in> set (snd (validate_file self w x)) \<Longrightarrow> \<exists>m. e = Log ERROR m"
  by (auto simp: validate_file_def Let_def split: stat_result.splits if_splits)

lemma except_SlackApiError_events:
  "e \<in> set (snd (except_SlackApiError x)) \<Longrightarrow> e \<in> set (snd x) \<or> (\<exists>m. e = Log ERROR m)"
  by (cases x rule: except_SlackApiError.cases) auto

lemma except_Exception_events:
  "e \<in> set (snd (except_Exception x)) \<Longrightarrow> e \<in> set (snd x) \<or> (\<exists>m. e = Log ERROR m)"
  by (cases x rule: except_Exception.cases) auto

lemma finally_clause_events:
  "e \<in> set (snd (finally_clause fl x)) \<Longrightarrow> e \<in> set (snd x) \<or> (\<exists>h. e = FileClose h)"
  by (cases "(fl, x)" rule: finally_clause.cases) auto

lemma post_in_send_message:
  "ChatPostMessage c t k \<in> set (snd (send_message w u m f files)) \<Longrightarrow>
     conversations_open w [u] = Return c \<and> t = m \<and> k = f"
  by (auto simp: send_message_def split: completion.splits option.splits)

lemma except_SlackApiError_eventsD:
  "except_SlackApiError x = (r, evs) \<Longrightarrow> e \<in> set evs \<Longrightarrow>
     e \<in> set (snd x) \<or> (\<exists>m. e = Log ERROR m)"
  using except_SlackApiError_events [of e x] by simp

lemma validate_file_eventsD:
  "validate_file self w x = (ok, evs) \<Longrightarrow> e \<in> set evs \<Longrightarrow> \<exists>m. e = Log ERROR m"
  using validate_file_events [of e self w x] by simp

lemma post_in_send_dm_try:
  assumes "ChatPostMessage c t k \<in> set (snd (snd (send_dm_try self w u m f fp)))"
  shows "startswith u ''U'' \<and> conversations_open w [u] = Return c \<and> t = m \<and> k = f"
proof -
  have "ChatPostMessage c t k \<in> set (snd (send_message w u m f None))
        \<or> (\<exists>p. ChatPostMessage c t k \<in> set (snd (send_message w u m f (Some p))))"
    using assms
    by (auto simp: send_dm_try_def Let_def
        split: if_splits option.splits prod.splits completion.splits
        dest: except_SlackApiError_eventsD validate_file_eventsD)
  moreover have "startswith u ''U''"
    using assms by (auto simp: send_dm_try_def split: if_splits)
  ultimately show ?thesis by (auto dest: post_in_send_message)
qed

lemma post_in_send_dm:
  assumes "ChatPostMessage c t k \<in> set (snd (send_dm self w u m f fp))"
  shows "startswith u ''U'' \<and> conversations_open w [u] = Return c \<and> t = m \<and> k = f"
proof -
  obtain r fl evs where t: "send_dm_try self w u m f fp = (r, fl, evs)"
    by (cases "send_dm_try self w u m f fp") auto
  from assms t have "ChatPostMessage c t k \<in> set evs"
    by (auto simp: send_dm_def dest!: finally_clause_events except_Exception_events)
  with t post_in_send_dm_try [of c t k self w u m f fp] show ?thesis by simp
qed

subsection \<open>A refused post\<close>

lemma try_send_refused:
  assumes "conversations_open w [u] = Return c"
      and "chat_postMessage w c m f = Raise (SlackApiError d)"
  shows "except_SlackApiError (send_message w u m f files) =
           (Return False,
            [ConversationsOpen [u], ChatPostMessage c m f,
             Log ERROR (''Failed to send message: '' @ d)])"
  using assms by (simp add: send_message_def)

text \<open>
  Claim C4: when the \<^verbatim>\<open>chat_postMessage\<close> call that \<^verbatim>\<open>send_dm\<close> makes raises
  \<^verbatim>\<open>SlackApiError\<close>, the call returns \<open>False\<close>, the error's text is logged, and the remote
  calls made are the opening of the channel and the refused post: \<^verbatim>\<open>files_upload\<close> is not
  called, whether or not a file was supplied and validated.
\<close>

theorem send_dm_post_refused:
  assumes "ChatPostMessage channel_id text mrkdwn
             \<in> set (snd (send_dm self w user_id message formatting file_path))"
      and "chat_postMessage w channel_id text mrkdwn = Raise (SlackApiError detail)"
  shows "fst (send_dm self w user_id message formatting file_path) = Return False
       \<and> Log ERROR (''Failed to send message: '' @ detail)
            \<in> set (snd (send_dm self w user_id message formatting file_path))
       \<and> remote_calls (snd (send_dm self w user_id message formatting file_path)) =
            [ConversationsOpen [user_id], ChatPostMessage channel_id message formatting]"
proof -
  from post_in_send_dm [OF assms(1)]
  have u: "startswith user_id ''U''" and c: "conversations_open w [user_id] = Return channel_id"
    and tm: "text = message" "mrkdwn = formatting" by simp_all
  note r = try_send_refused [OF c assms(2) [unfolded tm]]
  show ?thesis
  proof (cases "case file_path of None \<Rightarrow> None | Some fp \<Rightarrow> if truthy fp then Some fp else None")
    case None
    then have "send_dm self w user_id message formatting file_path =
                 (Return False,
                  [ConversationsOpen [user_id], ChatPostMessage channel_id message formatting,
                   Log ERROR (''Failed to send message: '' @ detail)])"
      using u by (simp add: send_dm_def send_dm_try_def r)
    then show ?thesis by (simp add: remote_calls_def)
  next
    case (Some fp)
    obtain vr vevs where vf: "validate_file self w fp = (vr, vevs)"
      by (cases "validate_file self w fp") auto
    show ?thesis
    proof (cases vr)
      case (Raise e)
      then have "send_dm self w user_id message formatting file_path =
                   (Return False, vevs @ [Log ERROR (''Unexpected error: '' @ str_exn e)])"
        using u Some vf
        by (simp add: send_dm_def send_dm_try_def Let_def validate_file_Path)
      with assms(1) vf show ?thesis by (auto dest: validate_file_eventsD)
    next
      case (Return ok)
      show ?thesis
      proof (cases ok)
        case False
        then have "send_dm self w user_id message formatting file_path = (Return False, vevs)"
          using u Some vf Return
          by (simp add: send_dm_def send_dm_try_def Let_def validate_file_Path)
        with assms(1) vf show ?thesis by (auto dest: validate_file_eventsD)
      next
        case True
        with vf Return have "fst (validate_file self w fp) = Return True" by simp
        note v = validate_file_True [OF this]
        show ?thesis
        proof (cases "open_rb w (Path fp)")
          case (Some msg)
          then have "send_dm self w user_id message formatting file_path =
                       (Return False, [Log ERROR (''Unexpected error: '' @ msg)])"
            using u \<open>_ = Some fp\<close>
            by (simp add: send_dm_def send_dm_try_def Let_def validate_file_Path v)
          with assms(1) show ?thesis by simp
        next
          case None
          then have "send_dm self w user_id message formatting file_path =
                       (Return False,
                        [FileOpen (Path fp), ConversationsOpen [user_id],
                         ChatPostMessage channel_id message formatting,
                         Log ERROR (''Failed to send message: '' @ detail),
                         FileClose (Path fp)])"
            using u \<open>_ = Some fp\<close>
            by (simp add: send_dm_def send_dm_try_def Let_def validate_file_Path v r)
          then show ?thesis by (simp add: remote_calls_def)
        qed
      qed
    qed
  qed
qed

lemma validate_report: "validate_file bot slack_up (Str ''report.pdf'') = (Return True, [])"
  by (simp add: validate_file_def bot_def slack_up_def file_system_def default_config_def
      path_defs string_defs)

lemma send_dm_post_refused_run:
  "send_dm bot post_refused ''U1234567'' ''See attached'' False (Some (Str ''report.pdf'')) =
     (Return False,
      [FileOpen (PosixPath [] [''report.pdf'']), ConversationsOpen [''U1234567''],
       ChatPostMessage ''D024BE91L'' ''See attached'' False,
       Log ERROR ''Failed to send message: channel_not_found'',
       FileClose (PosixPath [] [''report.pdf''])])"
  by (simp add: send_dm_def send_dm_try_def Let_def send_message_def validate_file_def bot_def
      post_refused_def slack_up_def file_system_def default_config_def path_defs string_defs)

theorem send_dm_post_refused_witness:
  "ChatPostMessage ''D024BE91L'' ''See attached'' False
     \<in> set (snd (send_dm bot post_refused ''U1234567'' ''See attached'' False
                   (Some (Str ''report.pdf''))))
   \<and> chat_postMessage post_refused ''D024BE91L'' ''See attached'' False =
        Raise (SlackApiError ''channel_not_found'')
   \<and> fst (send_dm bot post_refused ''U1234567'' ''See attached'' False
            (Some (Str ''report.pdf''))) = Return False
   \<and> Log ERROR ''Failed to send message: channel_not_found''
        \<in> set (snd (send_dm bot post_refused ''U1234567'' ''See attached'' False
                      (Some (Str ''report.pdf''))))
   \<and> remote_calls (snd (send_dm bot post_refused ''U1234567'' ''See attached'' False
                          (Some (Str ''report.pdf'')))) =
        [ConversationsOpen [''U1234567''], ChatPostMessage ''D024BE91L'' ''See attached'' False]"
proof -
  have a: "ChatPostMessage ''D024BE91L'' ''See attached'' False
             \<in> set (snd (send_dm bot post_refused ''U1234567'' ''See attached'' False
                           (Some (Str ''report.pdf''))))"
    by (simp add: send_dm_post_refused_run)
  have b: "chat_postMessage post_refused ''D024BE91L'' ''See attached'' False =
             Raise (SlackApiError ''channel_not_found'')"
    by (simp add: post_refused_def slack_up_def)
  show ?thesis using send_dm_post_refused [OF a b] a b by simp
qed

subsection \<open>A successful send with an attachment\<close>

text \<open>
  Claim C8: on a fully successful send with a validated attachment, exactly three remote
  calls occur, in this order: the channel is opened for the user, the message is posted to
  that channel with \<^verbatim>\<open>mrkdwn\<close> equal to the \<^verbatim>\<open>formatting\<close> argument, and the file is
  uploaded to the same channel with the file's base name as its title; the call returns
  \<open>True\<close>. The title is \<^verbatim>\<open>file_path.name\<close>; for a path given as a string that is the part
  after the last \<open>/\<close> (the whole string when it has none), here \<open>b\<close>, and never the
  directories \<open>d\<close> before it.
\<close>

theorem send_dm_with_attachment:
  assumes "startswith user_id ''U''" and "truthy fp"
      and "fst (validate_file self w fp) = Return True" and "open_rb w (Path fp) = None"
      and "conversations_open w [user_id] = Return channel_id"
      and "chat_postMessage w channel_id message formatting = Return ()"
      and "files_upload w channel_id (Path fp) (name (Path fp)) = Return ()"
  shows "send_dm self w user_id message formatting (Some fp) =
           (Return True,
            [FileOpen (Path fp),
             ConversationsOpen [user_id],
             ChatPostMessage channel_id message formatting,
             FilesUpload channel_id (Path fp) (name (Path fp)),
             Log INFO (''Successfully sent message to '' @ user_id),
             FileClose (Path fp)])
       \<and> remote_calls (snd (send_dm self w user_id message formatting (Some fp))) =
           [ConversationsOpen [user_id],
            ChatPostMessage channel_id message formatting,
            FilesUpload channel_id (Path fp) (name (Path fp))]
       \<and> ((fp = Str b \<or> fp = Str (d @ ''/'' @ b))
            \<and> CHR ''/'' \<notin> set b \<and> b \<noteq> [] \<and> b \<noteq> ''.'' \<longrightarrow>
          remote_calls (snd (send_dm self w user_id message formatting (Some fp))) =
            [ConversationsOpen [user_id],
             ChatPostMessage channel_id message formatting,
             FilesUpload channel_id (Path fp) b])"
proof -
  note v = validate_file_True [OF assms(3)]
  have s: "send_message w user_id message formatting (Some (Path fp)) =
             (Return True,
              [ConversationsOpen [user_id],
               ChatPostMessage channel_id message formatting,
               FilesUpload channel_id (Path fp) (name (Path fp)),
               Log INFO (''Successfully sent message to '' @ user_id)])"
    using assms(5,6,7) by (simp add: send_message_def)
  have r: "send_dm self w user_id message formatting (Some fp) =
           (Return True,
            [FileOpen (Path fp),
             ConversationsOpen [user_id],
             ChatPostMessage channel_id message formatting,
             FilesUpload channel_id (Path fp) (name (Path fp)),
             Log INFO (''Successfully sent message to '' @ user_id),
             FileClose (Path fp)])"
    using assms(1,2,4) by (simp add: send_dm_def send_dm_try_def Let_def validate_file_Path v s)
  have n: "name (Path fp) = b"
    if "fp = Str b \<or> fp = Str (d @ ''/'' @ b)" and "CHR ''/'' \<notin> set b" and "b \<noteq> []"
      and "b \<noteq> ''.''"
    using that name_plain [of b] name_basename [of b d] by auto
  show ?thesis using n by (auto simp: r remote_calls_def)
qed

lemma validate_nested_report:
  "validate_file bot (one_file ''docs/q3/report.pdf'' 2048) (Str ''docs/q3/report.pdf'') =
     (Return True, [])"
  by (simp add: validate_file_def bot_def one_file_def slack_up_def file_system_def
      default_config_def path_defs string_defs)

theorem send_dm_with_attachment_witness:
  "startswith ''U1234567'' ''U'' \<and> truthy (Str ''docs/q3/report.pdf'')
   \<and> fst (validate_file bot (one_file ''docs/q3/report.pdf'' 2048) (Str ''docs/q3/report.pdf''))
        = Return True
   \<and> open_rb (one_file ''docs/q3/report.pdf'' 2048) (Path (Str ''docs/q3/report.pdf'')) = None
   \<and> conversations_open (one_file ''docs/q3/report.pdf'' 2048) [''U1234567''] =
        Return ''D024BE91L''
   \<and> chat_postMessage (one_file ''docs/q3/report.pdf'' 2048) ''D024BE91L'' ''*Bold*'' True =
        Return ()
   \<and> files_upload (one_file ''docs/q3/report.pdf'' 2048) ''D024BE91L''
        (Path (Str ''docs/q3/report.pdf'')) (name (Path (Str ''docs/q3/report.pdf''))) =
        Return ()
   \<and> ''docs/q3/report.pdf'' = ''docs/q3'' @ ''/'' @ ''report.pdf''
   \<and> send_dm bot (one_file ''docs/q3/report.pdf'' 2048) ''U1234567'' ''*Bold*'' True
        (Some (Str ''docs/q3/report.pdf'')) =
        (Return True,
         [FileOpen (PosixPath [] [''docs'', ''q3'', ''report.pdf'']),
          ConversationsOpen [''U1234567''],
          ChatPostMessage ''D024BE91L'' ''*Bold*'' True,
          FilesUpload ''D024BE91L'' (PosixPath [] [''docs'', ''q3'', ''report.pdf''])
            ''report.pdf'',
          Log INFO ''Successfully sent message to U1234567'',
          FileClose (PosixPath [] [''docs'', ''q3'', ''report.pdf''])])
   \<and> remote_calls
        (snd (send_dm bot (one_file ''docs/q3/report.pdf'' 2048) ''U1234567'' ''*Bold*'' True
               (Some (Str ''docs/q3/report.pdf'')))) =
        [ConversationsOpen [''U1234567''],
         ChatPostMessage ''D024BE91L'' ''*Bold*'' True,
         FilesUpload ''D024BE91L'' (PosixPath [] [''docs'', ''q3'', ''report.pdf''])
           ''report.pdf'']"
proof -
  let ?w = "one_file ''docs/q3/report.pdf'' 2048"
  have h1: "startswith ''U1234567'' ''U''" by (simp add: startswith_def)
  have h2: "truthy (Str ''docs/q3/report.pdf'')" by simp
  have h3: "fst (validate_file bot ?w (Str ''docs/q3/report.pdf'')) = Return True"
    by (simp add: validate_nested_report)
  have h4: "open_rb ?w (Path (Str ''docs/q3/report.pdf'')) = None"
    by (simp add: one_file_def slack_up_def)
  have h5: "conversations_open ?w [''U1234567''] = Return ''D024BE91L''"
    by (simp add: one_file_def slack_up_def)
  have h6: "chat_postMessage ?w ''D024BE91L'' ''*Bold*'' True = Return ()"
    by (simp add: one_file_def slack_up_def)
  have h7: "files_upload ?w ''D024BE91L'' (Path (Str ''docs/q3/report.pdf''))
              (name (Path (Str ''docs/q3/report.pdf''))) = Return ()"
    by (simp add: one_file_def slack_up_def)
  have p: "parse_path ''docs/q3/report.pdf'' = PosixPath [] [''docs'', ''q3'', ''report.pdf'']"
    by (simp add: path_defs)
  have n: "name (PosixPath [] [''docs'', ''q3'', ''report.pdf'']) = ''report.pdf''"
    by (simp add: name_def)
  from send_dm_with_attachment
         [OF h1 h2 h3 h4 h5 h6 h7, of "''report.pdf''" "''docs/q3''"]
  have "send_dm bot ?w ''U1234567'' ''*Bold*'' True (Some (Str ''docs/q3/report.pdf'')) =
          (Return True,
           [FileOpen (PosixPath [] [''docs'', ''q3'', ''report.pdf'']),
            ConversationsOpen [''U1234567''],
            ChatPostMessage ''D024BE91L'' ''*Bold*'' True,
            FilesUpload ''D024BE91L'' (PosixPath [] [''docs'', ''q3'', ''report.pdf''])
              ''report.pdf'',
            Log INFO ''Successfully sent message to U1234567'',
            FileClose (PosixPath [] [''docs'', ''q3'', ''report.pdf''])])"
    and "remote_calls
          (snd (send_dm bot ?w ''U1234567'' ''*Bold*'' True
                 (Some (Str ''docs/q3/report.pdf'')))) =
          [ConversationsOpen [''U1234567''],
           ChatPostMessage ''D024BE91L'' ''*Bold*'' True,
           FilesUpload ''D024BE91L'' (PosixPath [] [''docs'', ''q3'', ''report.pdf''])
             ''report.pdf'']"
    by (simp_all add: p n remote_calls_def)
  with h1 h2 h3 h4 h5 h6 h7 show ?thesis by simp
qed

subsection \<open>File handles\<close>

lemma send_message_no_handles: "filter is_handle_event (snd (send_message w u m f files)) = []"
  by (simp add: send_message_def split: completion.splits option.splits)

lemma except_SlackApiError_handles:
  "filter is_handle_event (snd (except_SlackApiError x)) = filter is_handle_event (snd x)"
  by (cases x rule: except_SlackApiError.cases) simp_all

lemma except_Exception_handles:
  "filter is_handle_event (snd (except_Exception x)) = filter is_handle_event (snd x)"
  by (cases x rule: except_Exception.cases) simp_all

lemma validate_file_no_handles: "filter is_handle_event (snd (validate_file self w x)) = []"
  by (simp add: validate_file_def Let_def split: stat_result.splits)

lemma try_send_no_handles:
  "filter is_handle_event (snd (except_SlackApiError (send_message w u m f files))) = []"
  by (simp add: except_SlackApiError_handles send_message_no_handles)

text \<open>
  The body of the outer \<^verbatim>\<open>try\<close> opens at most one handle, and \<open>files\<close> holds it from then
  on.
\<close>

lemma send_dm_try_handles:
  "filter is_handle_event (snd (snd (send_dm_try self w u m f fp))) =
     (case fst (snd (send_dm_try self w u m f fp)) of
        Bound (Some p) \<Rightarrow> [FileOpen p]
      | _ \<Rightarrow> [])"
proof (cases "startswith u ''U''")
  case False
  then show ?thesis by (simp add: send_dm_try_def)
next
  case True
  show ?thesis
  proof (cases "case fp of None \<Rightarrow> None | Some x \<Rightarrow> if truthy x then Some x else None")
    case None
    then show ?thesis
      using True try_send_no_handles [of w u m f None]
      by (cases "except_SlackApiError (send_message w u m f None)")
         (simp add: send_dm_try_def)
  next
    case (Some x)
    obtain vr vevs where vf: "validate_file self w x = (vr, vevs)"
      by (cases "validate_file self w x") auto
    have nh: "filter is_handle_event vevs = []"
      using validate_file_no_handles [of self w x] vf by simp
    show ?thesis
    proof (cases "vr = Return True")
      case False
      then show ?thesis
        using True Some vf nh
        by (cases vr) (simp_all add: send_dm_try_def Let_def validate_file_Path)
    next
      case ok: True
      with vf have "fst (validate_file self w x) = Return True" by simp
      note v = validate_file_True [OF this]
      show ?thesis
      proof (cases "open_rb w (Path x)")
        case (Some msg)
        then show ?thesis
          using True \<open>_ = Some x\<close>
          by (simp add: send_dm_try_def Let_def validate_file_Path v)
      next
        case None
        then show ?thesis
          using True \<open>_ = Some x\<close> try_send_no_handles [of w u m f "Some (Path x)"]
          by (cases "except_SlackApiError (send_message w u m f (Some (Path x)))")
             (simp add: send_dm_try_def Let_def validate_file_Path v)
      qed
    qed
  qed
qed

lemma send_dm_handles:
  "filter is_handle_event (snd (send_dm self w u m f fp)) =
     (case fst (snd (send_dm_try self w u m f fp)) of
        Bound (Some p) \<Rightarrow> [FileOpen p, FileClose p]
      | _ \<Rightarrow> [])"
proof -
  obtain r fl evs where t: "send_dm_try self w u m f fp = (r, fl, evs)"
    by (cases "send_dm_try self w u m f fp") auto
  obtain r' evs' where e: "except_Exception (r, evs) = (r', evs')"
    by (cases "except_Exception (r, evs)") auto
  have h: "filter is_handle_event evs' = filter is_handle_event evs"
    using except_Exception_handles [of "(r, evs)"] e by simp
  show ?thesis
    using send_dm_try_handles [of self w u m f fp] t e h
    by (cases "(fl, (r', evs'))" rule: finally_clause.cases) (simp_all add: send_dm_def)
qed

lemma send_dm_last_close:
  "fst (snd (send_dm_try self w u m f fp)) = Bound (Some p) \<Longrightarrow>
     last (snd (send_dm self w u m f fp)) = FileClose p"
proof -
  assume b: "fst (snd (send_dm_try self w u m f fp)) = Bound (Some p)"
  obtain r fl evs where t: "send_dm_try self w u m f fp = (r, fl, evs)"
    by (cases "send_dm_try self w u m f fp") auto
  obtain r' evs' where e: "except_Exception (r, evs) = (r', evs')"
    by (cases "except_Exception (r, evs)") auto
  from b t e show ?thesis by (simp add: send_dm_def)
qed

lemma foldl_track_handle_filter:
  "foldl track_handle hs evs = foldl track_handle hs (filter is_handle_event evs)"
proof (induction evs arbitrary: hs)
  case Nil
  show ?case by simp
next
  case (Cons e evs)
  then show ?case by (cases e) simp_all
qed

text \<open>
  Claim C9: on every way out of \<^verbatim>\<open>send_dm\<close>, no file handle is left open. When the call has
  opened a handle, the handle events of the call are exactly that opening and its closing,
  and the closing is the last thing the call does, whether it returns \<open>True\<close>, returns
  \<open>False\<close> after a remote call has failed, or raises.
\<close>

theorem send_dm_closes_file_handle:
  "open_handles (snd (send_dm self w user_id message formatting file_path)) = []
   \<and> (FileOpen p \<in> set (snd (send_dm self w user_id message formatting file_path)) \<longrightarrow>
        filter is_handle_event (snd (send_dm self w user_id message formatting file_path)) =
          [FileOpen p, FileClose p]
      \<and> last (snd (send_dm self w user_id message formatting file_path)) = FileClose p)"
proof -
  let ?evs = "snd (send_dm self w user_id message formatting file_path)"
  let ?fl = "fst (snd (send_dm_try self w user_id message formatting file_path))"
  note h = send_dm_handles [of self w user_id message formatting file_path]
  have closed: "open_handles ?evs = []"
    unfolding open_handles_def
    by (subst foldl_track_handle_filter) (simp add: h split: local_var.splits option.splits)
  have "filter is_handle_event ?evs = [FileOpen p, FileClose p] \<and> last ?evs = FileClose p"
    if o: "FileOpen p \<in> set ?evs"
  proof -
    from o have "FileOpen p \<in> set (filter is_handle_event ?evs)" by simp
    with h have b: "?fl = Bound (Some p)"
      by (auto split: local_var.splits option.splits)
    with h send_dm_last_close [OF b] show ?thesis by simp
  qed
  with closed show ?thesis by blast
qed

lemma send_dm_upload_broken_run:
  "send_dm bot upload_broken ''U1234567'' ''See attached'' False (Some (Str ''report.pdf'')) =
     (Return False,
      [FileOpen (PosixPath [] [''report.pdf'']), ConversationsOpen [''U1234567''],
       ChatPostMessage ''D024BE91L'' ''See attached'' False,
       FilesUpload ''D024BE91L'' (PosixPath [] [''report.pdf'']) ''report.pdf'',
       Log ERROR ''Unexpected error: connection reset'',
       FileClose (PosixPath [] [''report.pdf''])])"
  by (simp add: send_dm_def send_dm_try_def Let_def send_message_def validate_file_def bot_def
      upload_broken_def slack_up_def file_system_def default_config_def path_defs
      string_defs)

theorem send_dm_closes_file_handle_witness:
  "FileOpen (PosixPath [] [''report.pdf''])
     \<in> set (snd (send_dm bot upload_broken ''U1234567'' ''See attached'' False
                   (Some (Str ''report.pdf''))))
   \<and> fst (send_dm bot upload_broken ''U1234567'' ''See attached'' False
            (Some (Str ''report.pdf''))) = Return False
   \<and> open_handles (snd (send_dm bot upload_broken ''U1234567'' ''See attached'' False
                          (Some (Str ''report.pdf'')))) = []
   \<and> last (snd (send_dm bot upload_broken ''U1234567'' ''See attached'' False
                   (Some (Str ''report.pdf'')))) = FileClose (PosixPath [] [''report.pdf''])"
proof -
  have o: "FileOpen (PosixPath [] [''report.pdf''])
             \<in> set (snd (send_dm bot upload_broken ''U1234567'' ''See attached'' False
                           (Some (Str ''report.pdf''))))"
    by (simp add: send_dm_upload_broken_run)
  have r: "fst (send_dm bot upload_broken ''U1234567'' ''See attached'' False
                 (Some (Str ''report.pdf''))) = Return False"
    by (simp add: send_dm_upload_broken_run)
  show ?thesis
    using send_dm_closes_file_handle
            [of bot upload_broken "''U1234567''" "''See attached''" False
                "Some (Str ''report.pdf'')" "PosixPath [] [''report.pdf'']"] o r
    by blast
qed

subsection \<open>Construction\<close>

lemma setup_logging_slack_up: "setup_logging slack_up = Return (logger bot)"
  by (simp add: setup_logging_def getenv_def logging_getattr_def logging_attrs_def bot_def
      slack_up_def string_defs path_defs)

lemma setup_logging_raises:
  "setup_logging w = Raise e \<Longrightarrow> e \<noteq> ValueError missing_token"
  by (auto simp: setup_logging_def Let_def logging_getattr_def missing_token_def
      split: option.splits completion.splits elim: setLevel.elims)

text \<open>
  Claim C7, as stated, says that construction fails exactly when no credential is
  available, and that a credential always yields an initialised instance. It fails when
  \<^verbatim>\<open>SLACK_LOG_LEVEL\<close> is \<^verbatim>\<open>TRACE\<close>: the credential is there, and \<^verbatim>\<open>_setup_logging\<close>, called
  from the constructor, raises \<^verbatim>\<open>AttributeError\<close> on \<^verbatim>\<open>getattr(logging, 'TRACE')\<close>.
\<close>

theorem init_unknown_log_level_counterexample:
  "available (Some ''xoxb-1234'')
   \<and> init (Some ''xoxb-1234'') trace_level =
       Raise (AttributeError ''module logging has no attribute TRACE'')"
  by (simp add: available_def init_defs trace_level_def slack_up_def string_defs path_defs)

text \<open>
  Claim C7, amended: construction raises the missing-credential \<^verbatim>\<open>ValueError\<close> exactly when
  neither the constructor argument nor \<^verbatim>\<open>SLACK_BOT_TOKEN\<close> holds a non-empty credential.
  When one does (the argument first, the environment variable otherwise), construction
  produces an instance with that credential, a client bound to it, the default
  configuration and the logger, provided that \<^verbatim>\<open>_setup_logging\<close> returns; when
  \<^verbatim>\<open>_setup_logging\<close> raises, construction raises that error and produces no instance.
\<close>

theorem init_outcome:
  "(init tok w = Raise (ValueError missing_token)) =
     (\<not> available tok \<and> \<not> available (environ w ''SLACK_BOT_TOKEN''))
   \<and> ((tok = Some t \<and> t \<noteq> []) \<or>
       (\<not> available tok \<and> environ w ''SLACK_BOT_TOKEN'' = Some t \<and> t \<noteq> []) \<longrightarrow>
         init tok w =
           (case setup_logging w of
              Raise e \<Rightarrow> Raise e
            | Return lg \<Rightarrow>
                Return \<lparr>token = t, client = \<lparr>client_token = t\<rparr>, config = default_config,
                        logger = lg\<rparr>))"
proof -
  have a: "init tok w = Raise (ValueError missing_token)"
    if "\<not> available tok" "\<not> available (environ w ''SLACK_BOT_TOKEN'')"
    using that
    by (auto simp: init_def available_def py_or_def py_not_def split: option.splits)
  have b: "init tok w =
           (case setup_logging w of
              Raise e \<Rightarrow> Raise e
            | Return lg \<Rightarrow>
                Return \<lparr>token = t, client = \<lparr>client_token = t\<rparr>, config = default_config,
                        logger = lg\<rparr>)"
    if "(tok = Some t \<and> t \<noteq> []) \<or>
        (\<not> available tok \<and> environ w ''SLACK_BOT_TOKEN'' = Some t \<and> t \<noteq> [])" for t
    using that
    by (auto simp: init_def available_def py_or_def py_not_def split: option.splits)
  have c: "init tok w \<noteq> Raise (ValueError missing_token)"
    if "available tok \<or> available (environ w ''SLACK_BOT_TOKEN'')"
  proof -
    from that obtain t where
      "(tok = Some t \<and> t \<noteq> []) \<or>
       (\<not> available tok \<and> environ w ''SLACK_BOT_TOKEN'' = Some t \<and> t \<noteq> [])"
      by (auto simp: available_def split: option.splits)
    from b [OF this] show ?thesis
      by (auto split: completion.splits dest: setup_logging_raises)
  qed
  from a b c show ?thesis by blast
qed

theorem init_outcome_witness:
  "init None slack_up = Return bot
   \<and> \<not> available None \<and> environ slack_up ''SLACK_BOT_TOKEN'' = Some ''xoxb-env''
   \<and> init None no_token = Raise (ValueError missing_token)
   \<and> \<not> available (environ no_token ''SLACK_BOT_TOKEN'')"
proof -
  have e: "environ slack_up ''SLACK_BOT_TOKEN'' = Some ''xoxb-env''"
    by (simp add: slack_up_def)
  have n: "\<not> available None" by (simp add: available_def)
  have m: "\<not> available (environ no_token ''SLACK_BOT_TOKEN'')"
    by (simp add: available_def no_token_def slack_up_def)
  show ?thesis
    using init_outcome [of None slack_up "''xoxb-env''"] init_outcome [of None no_token "[]"]
      e n m
    by (simp add: setup_logging_slack_up bot_def)
qed

text \<open>
  Claim C10, as stated, says that construction does not fail when the explicit credential
  is the empty string and \<^verbatim>\<open>SLACK_BOT_TOKEN\<close> is set. It fails when, besides,
  \<^verbatim>\<open>SLACK_LOG_LEVEL\<close> is \<^verbatim>\<open>verbose\<close>: the credential check passes and \<^verbatim>\<open>_setup_logging\<close>
  raises.
\<close>

theorem init_empty_token_counterexample:
  "environ verbose_level ''SLACK_BOT_TOKEN'' = Some ''xoxb-env''
   \<and> init (Some '''') verbose_level =
       Raise (AttributeError ''module logging has no attribute VERBOSE'')"
  by (simp add: init_defs verbose_level_def slack_up_def string_defs path_defs)

text \<open>
  Claim C10, amended: when the explicit credential is the empty string and
  \<^verbatim>\<open>SLACK_BOT_TOKEN\<close> holds a non-empty value, construction does not fail for want of a
  credential: the empty argument is replaced by the environment's value, and construction
  goes on exactly as if that value had been passed, producing an instance with it whenever
  \<^verbatim>\<open>_setup_logging\<close> returns.
\<close>

theorem init_empty_token_falls_back:
  assumes "environ w ''SLACK_BOT_TOKEN'' = Some v" and "v \<noteq> []"
  shows "init (Some []) w \<noteq> Raise (ValueError missing_token)
       \<and> init (Some []) w = init (Some v) w
       \<and> init (Some []) w =
           (case setup_logging w of
              Raise e \<Rightarrow> Raise e
            | Return lg \<Rightarrow>
                Return \<lparr>token = v, client = \<lparr>client_token = v\<rparr>, config = default_config,
                        logger = lg\<rparr>)"
proof -
  have b: "init (Some []) w =
           (case setup_logging w of
              Raise e \<Rightarrow> Raise e
            | Return lg \<Rightarrow>
                Return \<lparr>token = v, client = \<lparr>client_token = v\<rparr>, config = default_config,
                        logger = lg\<rparr>)"
    using assms by (simp add: init_def py_or_def py_not_def)
  have c: "init (Some v) w = init (Some []) w"
    using assms by (simp add: init_def py_or_def py_not_def)
  have "init (Some []) w \<noteq> Raise (ValueError missing_token)"
    unfolding b by (auto split: completion.splits dest: setup_logging_raises)
  with b c show ?thesis by simp
qed

theorem init_empty_token_falls_back_witness:
  "environ slack_up ''SLACK_BOT_TOKEN'' = Some ''xoxb-env'' \<and> ''xoxb-env'' \<noteq> []
   \<and> init (Some []) slack_up = Return bot
   \<and> init (Some ''xoxb-env'') slack_up = Return bot"
proof -
  have e: "environ slack_up ''SLACK_BOT_TOKEN'' = Some ''xoxb-env''"
    by (simp add: slack_up_def)
  have n: "''xoxb-env'' \<noteq> []" by simp
  note s = setup_logging_slack_up
  note f = init_empty_token_falls_back [OF e n]
  have a: "init (Some []) slack_up = Return bot"
    using f [THEN conjunct2, THEN conjunct2] by (simp add: s bot_def)
  have b: "init (Some ''xoxb-env'') slack_up = init (Some []) slack_up"
    by (rule f [THEN conjunct2, THEN conjunct1, symmetric])
  show ?thesis by (simp add: e a b)
qed

end
